theory Spec2Isabelle
  imports Complex_Main "HOL-Library.AList"
begin

text \<open>
  A model of the two modules of the repository: \<^verbatim>\<open>dlm_tool_schema.py\<close>, the tool schemas
  advertised to the completion model, and \<^verbatim>\<open>dlm_BCMtool_call.py\<close>, the backend callers, the
  dispatcher \<^verbatim>\<open>call_function\<close> and the script that runs one conversation. Each function
  returns, next to its result, the backend requests it issued, and raises by returning
  \<open>Inl\<close>. Output written with \<^verbatim>\<open>print\<close> is left out, except the final answer of a run.
\<close>

section \<open>Python values, exceptions and the HTTP boundary\<close>

text \<open>
  The two modules exchange JSON documents: the tool schemas are dict literals, the model's
  tool arguments come out of \<^verbatim>\<open>json.loads\<close>, the backends answer with JSON. A dict is an
  association list (Python dicts keep insertion order), \<^verbatim>\<open>None\<close> is \<open>JNull\<close>.
  A Python float is carried as the rational it denotes.
\<close>

datatype json =
    JNull
  | JBool bool
  | JInt int
  | JFloat rat
  | JStr string
  | JArr "json list"
  | JObj "(string \<times> json) list"

text \<open>
  A raised exception: its class, as far as the handlers of the source tell classes apart,
  and the text \<^verbatim>\<open>str(exc)\<close>. \<^verbatim>\<open>except ValueError\<close> also catches the JSON decoding errors,
  which subclass it. \<open>OtherError c\<close> is any other subclass \<open>c\<close> of \<^verbatim>\<open>Exception\<close>;
  \<open>NotException c\<close> is a class \<open>c\<close> that derives from \<^verbatim>\<open>BaseException\<close> and not from
  \<^verbatim>\<open>Exception\<close> (\<^verbatim>\<open>asyncio.CancelledError\<close>, \<^verbatim>\<open>KeyboardInterrupt\<close>, \<^verbatim>\<open>SystemExit\<close>): an
  \<^verbatim>\<open>except Exception\<close> clause does not catch it.
\<close>

datatype exn_class =
    ValueError
  | AttributeError
  | TypeError
  | NameError
  | OtherError string
  | NotException string

datatype exn = Exn (cls: exn_class) (msg: string)

fun is_Exception :: "exn \<Rightarrow> bool" where
  \<comment> \<open>\<^verbatim>\<open>isinstance(exc, Exception)\<close>: what \<^verbatim>\<open>except Exception\<close> catches\<close>
  "is_Exception (Exn (NotException _) _) = False"
| "is_Exception (Exn _ _) = True"

text \<open>
  One HTTP request as the source constructs it, with the keyword arguments of
  \<^verbatim>\<open>httpx.AsyncClient(...)\<close>, \<^verbatim>\<open>client.post/get(...)\<close> and \<^verbatim>\<open>requests.post(...)\<close>.
  \<open>timeout = None\<close> is a call made without any timeout argument to \<^verbatim>\<open>requests\<close>, which
  then waits without bound; \<open>json_body = JNull\<close> is a call without a JSON body.
\<close>

record http_request =
  http_method :: string
  url :: string
  headers :: "(string \<times> string) list"
  json_body :: json
  verify :: bool
  timeout :: "rat option"
  auth :: "(string \<times> string) option"

text \<open>
  A response object, by what its methods do when the source calls them:
  \<^verbatim>\<open>resp.raise_for_status()\<close> returns or raises, \<^verbatim>\<open>resp.json()\<close> returns the parsed body or
  raises, \<^verbatim>\<open>resp.text\<close> is the raw body.
\<close>

record http_response =
  status_code :: int
  body_text :: string
  on_raise_for_status :: "exn option"
  on_json :: "exn + json"

subsection \<open>The conversation\<close>

text \<open>
  A tool call of the model's reply: \<^verbatim>\<open>tool_call.id\<close>, \<^verbatim>\<open>tool_call.function.name\<close> and
  \<^verbatim>\<open>tool_call.function.arguments\<close> (JSON text). \<open>chat_message\<close> is
  \<^verbatim>\<open>response.choices[0].message\<close>.
\<close>

record tool_call =
  call_id :: string
  fn_name :: string
  fn_arguments :: string

record chat_message =
  content :: "string option"
  tool_calls :: "tool_call list option"

text \<open>
  The entries of \<^verbatim>\<open>messages\<close>, one constructor per dict shape of the source:
  \<^verbatim>\<open>{"role": "system", "content": c}\<close>, \<^verbatim>\<open>{"role": "user", "content": c}\<close>,
  \<^verbatim>\<open>{"role": "assistant", "content": None, "tool_calls": tcs}\<close>,
  \<^verbatim>\<open>{"role": "tool", "tool_call_id": i, "content": json.dumps(j)}\<close> (the content is kept as
  the document \<open>j\<close> that is serialised) and
  \<^verbatim>\<open>{"role": "function", "name": n, "content": t}\<close>.
\<close>

datatype message =
    SystemMsg string
  | UserMsg string
  | AssistantCalls "tool_call list"
  | ToolMsg string json
  | FunctionMsg string string

text \<open>
  Everything outside the two modules is a parameter: the backend reached over HTTP, the
  completion service (\<^verbatim>\<open>chat_client.chat.completions.create(model="gpt-4o", messages, tools)\<close>),
  \<^verbatim>\<open>json.loads\<close> and Python's \<^verbatim>\<open>str()\<close> on a value that is not a string.
\<close>

record env =
  backend :: "http_request \<Rightarrow> exn + http_response"
  chat_create :: "message list \<Rightarrow> json list \<Rightarrow> exn + chat_message"
  json_loads :: "string \<Rightarrow> exn + json"
  py_str :: "json \<Rightarrow> string"

definition sq :: "string \<Rightarrow> string" where
  \<comment> \<open>a name between single quotes, as Python's error messages print it\<close>
  "sq s = [CHR 0x27] @ s @ [CHR 0x27]"

fun py_type_name :: "json \<Rightarrow> string" where
  "py_type_name JNull = ''NoneType''"
| "py_type_name (JBool _) = ''bool''"
| "py_type_name (JInt _) = ''int''"
| "py_type_name (JFloat _) = ''float''"
| "py_type_name (JStr _) = ''str''"
| "py_type_name (JArr _) = ''list''"
| "py_type_name (JObj _) = ''dict''"

definition no_attribute :: "string \<Rightarrow> string \<Rightarrow> exn" where
  \<comment> \<open>the AttributeError of an attribute access on an object that lacks it\<close>
  "no_attribute ty a = Exn AttributeError (sq ty @ '' object has no attribute '' @ sq a)"

definition truthy :: "string option \<Rightarrow> bool" where
  \<comment> \<open>Python truth of an optional string: neither \<^verbatim>\<open>None\<close> nor empty\<close>
  "truthy s = (case s of None \<Rightarrow> False | Some v \<Rightarrow> v \<noteq> [])"

section \<open>dlm\_BCMtool\_call.py: the AICockpit lookups\<close>

definition validation_error :: json where
  "validation_error =
     JObj [(''error'', JStr ''Either 'sid' or 'objid' parameter is required''),
           (''step'', JStr ''validation'')]"

definition fallback_url :: string where
  "fallback_url = ''https://dlm/slim/''"

definition system_details_payload ::
    "string option \<Rightarrow> string option \<Rightarrow> string \<Rightarrow> string list option \<Rightarrow> (string \<times> json) list" where
  "system_details_payload sid objid sysType sections =
     (let payload = [(''sysType'', JStr sysType)];
          payload = (case sid of None \<Rightarrow> payload
                     | Some s \<Rightarrow> if s \<noteq> [] then AList.update ''sid'' (JStr s) payload else payload);
          payload = (case objid of None \<Rightarrow> payload
                     | Some s \<Rightarrow> if s \<noteq> [] then AList.update ''objid'' (JStr s) payload else payload);
          payload = (case sections of None \<Rightarrow> payload
                     | Some xs \<Rightarrow> if xs \<noteq> [] then AList.update ''sections'' (JArr (map JStr xs)) payload
                                 else payload)
      in payload)"

definition system_details_request ::
    "string option \<Rightarrow> string option \<Rightarrow> string \<Rightarrow> string list option \<Rightarrow> string option \<Rightarrow> http_request" where
  "system_details_request sid objid sysType sections base_url =
     (let base_url = (case base_url of None \<Rightarrow> fallback_url | Some b \<Rightarrow> b) in
      \<lparr> http_method = ''POST'',
        url = base_url @ ''/rest/external/aicockpit/systemdata'',
        headers = [(''Content-Type'', ''application/json'')],
        json_body = JObj (system_details_payload sid objid sysType sections),
        verify = False,
        timeout = Some 30,
        auth = None \<rparr>)"

definition fetch_json :: "env \<Rightarrow> http_request \<Rightarrow> exn + json" where
  \<comment> \<open>the request, then \<^verbatim>\<open>resp.raise_for_status()\<close>, then \<^verbatim>\<open>resp.json()\<close>\<close>
  "fetch_json env req =
     (case backend env req of
        Inl exc \<Rightarrow> Inl exc
      | Inr resp \<Rightarrow>
          (case on_raise_for_status resp of
             Some exc \<Rightarrow> Inl exc
           | None \<Rightarrow> on_json resp))"

text \<open>
  The body of the \<^verbatim>\<open>try\<close> of \<^verbatim>\<open>aicockpit_get_system_details\<close>: the requests issued and
  either the exception raised or the document whose \<^verbatim>\<open>json.dumps\<close> text is returned.
  A parsed body that is a dict with an \<^verbatim>\<open>error\<close> key is logged (\<^verbatim>\<open>API returned error\<close>) and
  then returned like every other body.
\<close>

definition system_details_try ::
    "env \<Rightarrow> string option \<Rightarrow> string option \<Rightarrow> string \<Rightarrow> string list option \<Rightarrow> string option
      \<Rightarrow> http_request list \<times> (exn + json)" where
  "system_details_try env sid objid sysType sections base_url =
     (if \<not> truthy sid \<and> \<not> truthy objid then ([], Inr validation_error)
      else
        (let req = system_details_request sid objid sysType sections base_url
         in ([req], fetch_json env req)))"

definition aicockpit_get_system_details ::
    "env \<Rightarrow> string option \<Rightarrow> string option \<Rightarrow> string \<Rightarrow> string list option \<Rightarrow> string option
      \<Rightarrow> http_request list \<times> (exn + json)" where
  "aicockpit_get_system_details env sid objid sysType sections base_url =
     (case system_details_try env sid objid sysType sections base_url of
        (sent, Inr result) \<Rightarrow> (sent, Inr result)
      | (sent, Inl exc) \<Rightarrow>
          if is_Exception exc then
            (sent, Inr (JObj [(''error'',
                               JStr (''Error in aicockpit_get_system_details: '' @ msg exc)),
                              (''step'', JStr ''fetch_system_data'')]))
          else (sent, Inl exc))"

definition sections_request :: "string option \<Rightarrow> http_request" where
  "sections_request base_url =
     (let base_url = (case base_url of None \<Rightarrow> fallback_url | Some b \<Rightarrow> b) in
      \<lparr> http_method = ''GET'',
        url = base_url @ ''/rest/external/aicockpit/sections'',
        headers = [(''Content-Type'', ''application/json'')],
        json_body = JNull,
        verify = False,
        timeout = Some 30,
        auth = None \<rparr>)"

definition result_get :: "json \<Rightarrow> exn + unit" where
  \<comment> \<open>\<^verbatim>\<open>result.get('total_sections', 0)\<close> inside the log line: only a dict has \<^verbatim>\<open>get\<close>\<close>
  "result_get result =
     (case result of JObj _ \<Rightarrow> Inr () | _ \<Rightarrow> Inl (no_attribute (py_type_name result) ''get''))"

definition sections_try :: "env \<Rightarrow> string option \<Rightarrow> http_request list \<times> (exn + json)" where
  "sections_try env base_url =
     (let req = sections_request base_url in
      case fetch_json env req of
        Inl exc \<Rightarrow> ([req], Inl exc)
      | Inr result \<Rightarrow>
          (case result_get result of
             Inl exc \<Rightarrow> ([req], Inl exc)
           | Inr _ \<Rightarrow> ([req], Inr result)))"

definition aicockpit_get_sections :: "env \<Rightarrow> string option \<Rightarrow> http_request list \<times> (exn + json)" where
  "aicockpit_get_sections env base_url =
     (case sections_try env base_url of
        (sent, Inr result) \<Rightarrow> (sent, Inr result)
      | (sent, Inl exc) \<Rightarrow>
          if is_Exception exc then
            (sent, Inr (JObj [(''error'', JStr (''Error in aicockpit_get_sections: '' @ msg exc)),
                              (''step'', JStr ''fetch_sections'')]))
          else (sent, Inl exc))"

section \<open>dlm\_BCMtool\_call.py: the BCM search and the dispatcher\<close>

definition bcm_default_endpoint :: string where
  "bcm_default_endpoint = ''https://ldciade.wdf.sap.corp:44315/sap/bc/abap/DLMD/BCM_READ_DATA''"

definition fstr :: "env \<Rightarrow> json \<Rightarrow> string" where
  \<comment> \<open>a value inside an f-string: a string as it is, anything else through \<^verbatim>\<open>str()\<close>\<close>
  "fstr env v = (case v of JStr s \<Rightarrow> s | _ \<Rightarrow> py_str env v)"

definition bcm_request :: "env \<Rightarrow> json \<Rightarrow> json \<Rightarrow> http_request" where
  "bcm_request env payload endpoint =
     (let user = ''DLM_BCM'';
          password = ''BCM_dlm@321'';
          url = fstr env endpoint @ ''?sap-client=200&IS_GENERIC=X'';
          headers = [(''Accept'', ''application/json, text/plain, */*''),
                     (''Content-Type'', ''application/json;charset=utf-8''),
                     (''X-Requested-With'', ''XMLHttpRequest'')]
      in \<lparr> http_method = ''POST'',
           url = url,
           headers = headers,
           json_body = payload,
           verify = False,
           timeout = None,
           auth = Some (user, password) \<rparr>)"

text \<open>
  \<^verbatim>\<open>search_BCM_Request(payload, method, endpoint)\<close>: one \<^verbatim>\<open>requests.post\<close>, outside any
  \<^verbatim>\<open>try\<close>; then \<^verbatim>\<open>resp.json()\<close> is called for the log only, under \<^verbatim>\<open>except ValueError\<close>;
  the response object is returned. \<^verbatim>\<open>method\<close> is never read.
\<close>

definition search_BCM_Request ::
    "env \<Rightarrow> json \<Rightarrow> json \<Rightarrow> json \<Rightarrow> http_request list \<times> (exn + http_response)" where
  "search_BCM_Request env payload method endpoint =
     (let req = bcm_request env payload endpoint in
      case backend env req of
        Inl exc \<Rightarrow> ([req], Inl exc)
      | Inr resp \<Rightarrow>
          (case on_json resp of
             Inr result \<Rightarrow> ([req], Inr resp)
           | Inl exc \<Rightarrow> if cls exc = ValueError then ([req], Inr resp) else ([req], Inl exc)))"

definition bcm_params :: "string list" where
  "bcm_params = [''payload'', ''method'', ''endpoint'']"

definition arg :: "(string \<times> json) list \<Rightarrow> string \<Rightarrow> json \<Rightarrow> json" where
  \<comment> \<open>a keyword argument, or the default of the parameter\<close>
  "arg kvs k d = (case map_of kvs k of None \<Rightarrow> d | Some v \<Rightarrow> v)"

text \<open>
  \<^verbatim>\<open>search_BCM_Request(**args)\<close>: \<^verbatim>\<open>args\<close> is whatever \<^verbatim>\<open>json.loads\<close> gave. Anything but a
  dict, and a dict with a key that is no parameter of the function, is a TypeError at the
  call; the parameters left out take their defaults.
\<close>

definition call_search_BCM_Request ::
    "env \<Rightarrow> json \<Rightarrow> http_request list \<times> (exn + http_response)" where
  "call_search_BCM_Request env args =
     (case args of
        JObj kvs \<Rightarrow>
          (case filter (\<lambda>k. k \<notin> set bcm_params) (map fst kvs) of
             k # _ \<Rightarrow>
               ([], Inl (Exn TypeError
                          (''search_BCM_Request() got an unexpected keyword argument '' @ sq k)))
           | [] \<Rightarrow>
               search_BCM_Request env
                 (arg kvs ''payload'' JNull)
                 (arg kvs ''method'' (JStr ''POST''))
                 (arg kvs ''endpoint'' (JStr bcm_default_endpoint)))
      | _ \<Rightarrow>
          ([], Inl (Exn TypeError
                     (''__main__.search_BCM_Request() argument after ** must be a mapping, not ''
                        @ py_type_name args))))"

definition call_function ::
    "env \<Rightarrow> string \<Rightarrow> json \<Rightarrow> http_request list \<times> (exn + http_response option)" where
  \<comment> \<open>no \<^verbatim>\<open>else\<close>: any other name falls off the end of the function, which returns \<^verbatim>\<open>None\<close>\<close>
  "call_function env name args =
     (if name = ''get_BCM_Request'' then
        (case call_search_BCM_Request env args of
           (sent, Inl exc) \<Rightarrow> (sent, Inl exc)
         | (sent, Inr resp) \<Rightarrow> (sent, Inr (Some resp)))
      else ([], Inr None))"

section \<open>dlm\_tool\_schema.py: the schemas advertised to the model\<close>

definition get_search_system_flexi_schema :: json where
  "get_search_system_flexi_schema =
     JObj [
       (''type'', JStr ''function''),
       (''function'', JObj [
          (''name'', JStr ''search_system_flexi''),
          (''description'', JStr (
             ''Query the SLIM Flexi Report API to search SAP system landscape data. '' @
             ''Use a comma-separated field list (supports dot notation and aliases).'')),
          (''parameters'', JObj [
             (''type'', JStr ''object''),
             (''properties'', JObj [
                (''query'', JObj [
                   (''type'', JStr ''string''),
                   (''enum'', JArr [JStr ''systemType'', JStr ''extSystem'', JStr ''sid'',
                                    JStr ''landscape'']),
                   (''description'', JStr (
                      ''Comma-separated list of fields to retrieve, with optional filters. '' @
                      ''Filters are encoded as 'field|value'. '' @
                      ''Example: 'SID,systemType,status,customer.name,sid|ER1,status|Live'. '' @
                      '' Rules: 'sid|...' is only valid for a specific 3-character SID. '' @
                      ''To query multiple systems, use only other filters like 'status|Parked'.'' @
                      ''for an extensibility system, please make sure that the flag extSystem is true.''))]),
                (''otype'', JObj [
                   (''type'', JStr ''string''),
                   (''enum'', JArr [JStr ''json'', JStr ''xml'', JStr ''csv'']),
                   (''default'', JStr ''json''),
                   (''description'', JStr ''Output format (default: json).'')])]),
             (''required'', JArr [JStr ''query'', JStr ''otype'']),
             (''additionalProperties'', JBool False)]),
          (''strict'', JBool True)])]"

definition get_entity_details_schema :: json where
  "get_entity_details_schema =
     JObj [
       (''type'', JStr ''function''),
       (''function'', JObj [
          (''name'', JStr ''get_entity_details''),
          (''description'', JStr (
             ''Fetch entity data from /rest/entityData/get/{entity}. '' @
             ''Supports systems (model.system.ABAPSystem) and landscapes (model.Landscape). '' @
             ''Returns one or many entries depending on filters.'')),
          (''parameters'', JObj [
             (''type'', JStr ''object''),
             (''properties'', JObj [
                (''entity'', JObj [
                   (''type'', JStr ''string''),
                   (''enum'', JArr [JStr ''model.system.ABAPSystem'', JStr ''model.Landscape'']),
                   (''description'', JStr ''Target entity to query.'')]),
                (''filters'', JObj [
                   (''type'', JStr ''array''),
                   (''description'', JStr (
                      ''List of filters mapped to qFieldValue as 'field~value'. '' @
                      ''Multiple entries are ANDed by default.'')),
                   (''items'', JObj [
                      (''type'', JStr ''object''),
                      (''properties'', JObj [
                         (''field'', JObj [
                            (''type'', JStr ''string''),
                            (''description'', JStr ''Entity attribute to match (e.g., 'SID', 'status', 'name', 'product.name', 'usage').'')]),
                         (''value'', JObj [
                            (''type'', JStr ''string''),
                            (''description'', JStr ''Match value; '~' semantics as per backend (typically contains/equals). URL-encode if needed.'')])]),
                      (''required'', JArr [JStr ''field'', JStr ''value'']),
                      (''additionalProperties'', JBool False)])]),
                (''logic'', JObj [
                   (''type'', JStr ''string''),
                   (''enum'', JArr [JStr ''AND'', JStr ''OR'']),
                   (''description'', JStr (
                      ''How to combine filters. Backend natively ANDs repeated qFieldValue. '' @
                      ''OR may require encoding multiple values per field or backend support.''))]),
                (''limit'', JObj [
                   (''type'', JStr ''integer''),
                   (''minimum'', JInt 1),
                   (''description'', JStr ''Optional client-side limit on returned items.'')]),
                (''offset'', JObj [
                   (''type'', JStr ''integer''),
                   (''minimum'', JInt 0),
                   (''description'', JStr ''Optional client-side offset (if you implement pagination).'')]),
                (''q_raw'', JObj [
                   (''type'', JStr ''array''),
                   (''description'', JStr (
                      ''Advanced: pass-through list of raw qFieldValue strings ('field~value'). '' @
                      ''If provided, these are appended as-is.'')),
                   (''items'', JObj [(''type'', JStr ''string'')])])]),
             (''required'', JArr [JStr ''entity'']),
             (''additionalProperties'', JBool False)]),
          (''strict'', JBool True)])]"

definition get_all_schemas :: "json list" where
  "get_all_schemas = [get_search_system_flexi_schema, get_entity_details_schema]"

definition schema_name :: "json \<Rightarrow> string option" where
  \<comment> \<open>\<^verbatim>\<open>schema["function"]["name"]\<close>: the name under which a tool is advertised\<close>
  "schema_name s =
     (case s of
        JObj kvs \<Rightarrow>
          (case map_of kvs ''function'' of
             Some (JObj f) \<Rightarrow> (case map_of f ''name'' of Some (JStr n) \<Rightarrow> Some n | _ \<Rightarrow> None)
           | _ \<Rightarrow> None)
      | _ \<Rightarrow> None)"

text \<open>
  The schema of the BCM search. The script imports it, but the list given to the model is
  \<^verbatim>\<open>get_all_schemas()\<close> (the line \<^verbatim>\<open>tools = [get_BCM_request_schema()]\<close> is commented out).
  \<^verbatim>\<open>HEADER_OUT_FEILD\<close> is a key of the \<^verbatim>\<open>payload\<close> object and the last \<^verbatim>\<open>required\<close> a key of
  the parameters' \<^verbatim>\<open>properties\<close>, as the braces of the source close.
\<close>

definition get_BCM_request_schema :: json where
  \<open>get_BCM_request_schema =
     JObj [
        (''type'', JStr ''function''),
        (''function'', JObj [
           (''name'', JStr ''get_BCM_Request''),
           (''description'', JStr ''Execute a POST call to the BCM (Business Client Management) service to fetch client request details. it's a POST call and the payload are craeted dynamically based on the user input''),
           (''parameters'', JObj [
              (''type'', JStr ''object''),
              (''properties'', JObj [
                 (''endpoint'', JObj [
                    (''type'', JStr ''string''),
                    (''description'', JStr ''The API endpoint to call BCM service.''),
                    (''default'', JStr ''https://ldciade.wdf.sap.corp:44315/sap/bc/abap/DLMD/BCM_READ_DATA?sap-client=200&IS_GENERIC=X'')]),
                 (''method'', JObj [
                    (''type'', JStr ''string''),
                    (''enum'', JArr [JStr ''POST'']),
                    (''default'', JStr ''POST''),
                    (''description'', JStr ''The HTTP method to be used for the call.'')]),
                 (''payload'', JObj [
                    (''type'', JStr ''object''),
                    (''description'', JStr ''POST body payload for the BCM API call.''),
                    (''properties'', JObj [
                       (''HEADER_FILTER'', JObj [
                          (''type'', JStr ''array''),
                          (''description'', JStr (
                             ''This array will be formed based on user input\<newline>'' @
                             ''                                                this filiter criteria will be used for fetching data from ABAP SE11 table /DLMD/2BCPR_MSTR '')),
                          (''items'', JObj [
                             (''type'', JStr ''object''),
                             (''properties'', JObj [
                                (''FIELD_NAME'', JObj [
                                   (''type'', JStr ''string''),
                                   (''description'', JStr (
                                      ''Technical name of the field, determined based on user prompt,"\<newline>'' @
                                      ''                                                            e.g., 'REQUEST_ID', 'VERSION', 'STATUS', 'REQUESTOR', 'TYPE', etc.\<newline>'' @
                                      ''                                                            All the field name should be part of /DLMD/2BCPR_MSTR table fields'')),
                                   (''enum'', JArr [])]),
                                (''VALUE_SELOP'', JObj [
                                   (''type'', JStr ''array''),
                                   (''items'', JObj [
                                      (''type'', JStr ''object''),
                                      (''properties'', JObj [
                                         (''SIGN'', JObj [
                                            (''type'', JStr ''string''),
                                            (''description'', JStr ''I = Include if the value should be included or E = Exclude if the value should be excluded.''),
                                            (''valid enum'', JArr [JStr ''I'', JStr ''E''])]),
                                         (''OPTION'', JObj [
                                            (''type'', JStr ''string''),
                                            (''description'', JStr (
                                               ''The operators determine whether the specified values are used as a single value, a range or a search pattern when restricting the data selection. \<newline>'' @
                                               ''                                                        These operators work together with the fields lower limit (LOW), upper limit (HIGH) and the OPTION (I/E).\<newline>'' @
                                               ''                                                        The following operators may be used:\<newline>'' @
                                               ''                                                        EQ Equal\<newline>'' @
                                               ''                                                        BT BeTween\<newline>'' @
                                               ''                                                        LE Less Equal\<newline>'' @
                                               ''                                                        GE Greater Equal\<newline>'' @
                                               ''                                                        CP Contains Pattern'')),
                                            (''valid enum'', JArr [JStr ''EQ'', JStr ''GE'', JStr ''LE'', JStr ''BT'', JStr ''NB'', JStr ''CP''])]),
                                         (''LOW'', JObj [
                                            (''type'', JStr ''string''),
                                            (''description'', JStr ''The lower limit of the value range for the filter condition.'')]),
                                         (''HIGH'', JObj [
                                            (''type'', JStr ''string''),
                                            (''description'', JStr ''The upper limit of the value range for the filter condition.'')])]),
                                      (''required'', JArr [JStr ''SIGN'', JStr ''OPTION'', JStr ''LOW''])])])]),
                             (''required'', JArr [JStr ''FIELD_NAME'', JStr ''VALUE_SELOP''])])])]),
                    (''HEADER_OUT_FEILD'', JObj [
                       (''type'', JStr ''string''),
                       (''description'', JStr (
                          ''Comma-separated list of fields to retrieve in the response.\<newline>'' @
                          ''                                                e.g., 'REQUEST_ID,VERSION,STATUS,REQUESTOR,TYPE'' @
                          [CHR 0x27]))])]),
                 (''required'', JArr [JStr ''HEADER_FILTER, HEADER_OUT_FEILD''])])])])]\<close>

section \<open>dlm\_BCMtool\_call.py: the orchestration script\<close>

definition tools :: "json list" where
  "tools = get_all_schemas"

definition user_prompt :: string where
  "user_prompt = ''show me all the BCM request for the system CCF, if it belongs to the landscape: 'SAP S/4HANA Public Cloud Development'?''"

definition system_prompt :: string where
  "system_prompt =
     ''\<newline>'' @
     ''You are a helpful assistant that retrieves BCM Request information using the BCM POST API CAll.\<newline>'' @
     ''\<newline>'' @
     ''When the query contains landscape keyword, first call get_aicockpit_get_system_details_schema() tool to get the system ID\<newline>'' @
     ''and then use BCM API and use system ID as TA_SID from first query and get the BCM request details.\<newline>'' @
     ''\<newline>'' @
     ''You have to prepare the correct dynamic POST payload based on the user input\<newline>'' @
     ''You have access to a tool called `search_BCM_Request` that allows you to \<newline>'' @
     ''search BCM request based on the filters derived from user prompt.\<newline>'' @
     ''\<newline>'' @
     ''Reply the output in nauturatl language.\<newline>'' @
     ''Technical fields are explained below:\<newline>'' @
     ''- REQUEST_ID: BCM Request ID\<newline>'' @
     ''- TA_SID: Target System SID\<newline>'' @
     ''- TA_CLNT: Target System Client\<newline>'' @
     ''- STATUS: BCM Request Status\<newline>'' @
     ''- TYPE: BCM Request Type\<newline>'' @
     ''- CREATED_BY: User who created the BCM Request\<newline>'' @
     ''- REQUESTOR: User who requested the BCM Request\<newline>'' @
     ''- ID: Scope Item ID\<newline>'' @
     ''- DESCRIPTION: Scope Item Description\<newline>'' @
     ''- PROCESSOR: User responsible for processing the Scope Item\<newline>'' @
     ''- DELIVERY_STATUS: Status of the Scope Item \<newline>'' @
     ''\<newline>'' @
     ''When you need BCM request information, call the tool with the right payload including filters and output fields. Always include the tool result in your final answer.\<newline>''"

definition messages :: "message list" where
  "messages = [SystemMsg system_prompt, UserMsg user_prompt]"

text \<open>
  What a run of the script leaves behind: the \<^verbatim>\<open>messages\<close> list as it stands, the backend
  requests issued, and the calls made to the completion service (each with the conversation
  and the tool schemas it was given), in order.
\<close>

record trace =
  msgs :: "message list"
  http_log :: "http_request list"
  chat_log :: "(message list \<times> json list) list"

text \<open>
  How the script ends: \<open>Done t\<close> after printing the answer \<open>t\<close> (\<^verbatim>\<open>None\<close> when the reply
  has no text), \<open>Raised exc\<close> when an exception leaves the script and the interpreter stops
  with a traceback.
\<close>

datatype outcome = Done "string option" | Raised exn

text \<open>
  The \<^verbatim>\<open>for\<close> loop over the tool calls: its body only rebinds \<^verbatim>\<open>arguments\<close>; what the
  loop leaves is its two variables, \<^verbatim>\<open>tool_call\<close> and \<^verbatim>\<open>arguments\<close>, as last bound.
\<close>

fun for_tool_calls ::
    "env \<Rightarrow> tool_call list \<Rightarrow> (tool_call \<times> json) option \<Rightarrow> exn + (tool_call \<times> json) option" where
  "for_tool_calls env [] bound = Inr bound"
| "for_tool_calls env (tool_call # rest) bound =
     (case json_loads env (fn_arguments tool_call) of
        Inl exc \<Rightarrow> Inl exc
      | Inr arguments \<Rightarrow> for_tool_calls env rest (Some (tool_call, arguments)))"

definition response_json :: "http_response option \<Rightarrow> exn + json" where
  \<comment> \<open>\<^verbatim>\<open>function_response.json()\<close>, on a response object or on \<^verbatim>\<open>None\<close>\<close>
  "response_json function_response =
     (case function_response of
        None \<Rightarrow> Inl (no_attribute ''NoneType'' ''json'')
      | Some resp \<Rightarrow> on_json resp)"

definition response_text :: "http_response option \<Rightarrow> exn + string" where
  \<comment> \<open>\<^verbatim>\<open>function_response.text\<close>\<close>
  "response_text function_response =
     (case function_response of
        None \<Rightarrow> Inl (no_attribute ''NoneType'' ''text'')
      | Some resp \<Rightarrow> Inr (body_text resp))"

text \<open>
  The \<^verbatim>\<open>try\<close>/\<^verbatim>\<open>except Exception\<close> after the call: the message appended to the
  conversation, or the exception that the clause does not catch, or the exception raised
  inside the handler, where nothing catches it.
\<close>

definition result_message :: "tool_call \<Rightarrow> http_response option \<Rightarrow> exn + message" where
  "result_message tool_call function_response =
     (case response_json function_response of
        Inr result_json \<Rightarrow> Inr (ToolMsg (call_id tool_call) result_json)
      | Inl exc \<Rightarrow>
          if is_Exception exc then
            (case response_text function_response of
               Inl exc' \<Rightarrow> Inl exc'
             | Inr t \<Rightarrow> Inr (FunctionMsg (fn_name tool_call) t))
          else Inl exc)"

definition or_no_content :: "string option \<Rightarrow> string" where
  \<comment> \<open>\<^verbatim>\<open>final_message.content or "(no content)"\<close>\<close>
  "or_no_content c = (case c of None \<Rightarrow> ''(no content)'' | Some t \<Rightarrow> if t = [] then ''(no content)'' else t)"

text \<open>The \<^verbatim>\<open>else\<close> branch of the script, entered with a non-empty list of tool calls.\<close>

definition execute_tools :: "env \<Rightarrow> tool_call list \<Rightarrow> trace \<times> outcome" where
  "execute_tools env tcs =
     (let first_call = (messages, tools);
          msgs1 = messages @ [AssistantCalls tcs]
      in
      case for_tool_calls env tcs None of
        Inl exc \<Rightarrow> (\<lparr>msgs = msgs1, http_log = [], chat_log = [first_call]\<rparr>, Raised exc)
      | Inr None \<Rightarrow>
          (\<lparr>msgs = msgs1, http_log = [], chat_log = [first_call]\<rparr>,
           Raised (Exn NameError (''name '' @ sq ''tool_call'' @ '' is not defined'')))
      | Inr (Some (tool_call, arguments)) \<Rightarrow>
          (case call_function env (fn_name tool_call) arguments of
             (sent, Inl exc) \<Rightarrow>
               (\<lparr>msgs = msgs1, http_log = sent, chat_log = [first_call]\<rparr>, Raised exc)
           | (sent, Inr function_response) \<Rightarrow>
               (case result_message tool_call function_response of
                  Inl exc \<Rightarrow>
                    (\<lparr>msgs = msgs1, http_log = sent, chat_log = [first_call]\<rparr>, Raised exc)
                | Inr m \<Rightarrow>
                    (let msgs2 = msgs1 @ [m];
                         second_call = (msgs2, tools)
                     in
                     case chat_create env msgs2 tools of
                       Inl exc \<Rightarrow>
                         (\<lparr>msgs = msgs2, http_log = sent, chat_log = [first_call, second_call]\<rparr>,
                          Raised exc)
                     | Inr second_response \<Rightarrow>
                         (\<lparr>msgs = msgs2, http_log = sent, chat_log = [first_call, second_call]\<rparr>,
                          Done (Some (or_no_content (content second_response))))))))"

text \<open>
  The script from the first completion call on. \<^verbatim>\<open>if not tool_calls\<close> holds for \<^verbatim>\<open>None\<close>
  and for the empty list.
\<close>

definition run :: "env \<Rightarrow> trace \<times> outcome" where
  "run env =
     (case chat_create env messages tools of
        Inl exc \<Rightarrow> (\<lparr>msgs = messages, http_log = [], chat_log = [(messages, tools)]\<rparr>, Raised exc)
      | Inr response \<Rightarrow>
          (case tool_calls response of
             None \<Rightarrow>
               (\<lparr>msgs = messages, http_log = [], chat_log = [(messages, tools)]\<rparr>,
                Done (content response))
           | Some [] \<Rightarrow>
               (\<lparr>msgs = messages, http_log = [], chat_log = [(messages, tools)]\<rparr>,
                Done (content response))
           | Some (tc # tcs) \<Rightarrow> execute_tools env (tc # tcs)))"

text \<open>The results of tool calls found in a conversation.\<close>

fun is_result :: "message \<Rightarrow> bool" where
  "is_result (ToolMsg _ _) = True"
| "is_result (FunctionMsg _ _) = True"
| "is_result _ = False"

section \<open>Reading documents and exchanges\<close>

definition obj_get :: "json \<Rightarrow> string \<Rightarrow> json option" where
  \<comment> \<open>the value under a key of a JSON object\<close>
  "obj_get j k = (case j of JObj kvs \<Rightarrow> map_of kvs k | _ \<Rightarrow> None)"

text \<open>
  The docstring of \<^verbatim>\<open>search_BCM_Request\<close> gives the output fields of a group as one string
  of comma separated technical field names (\<^verbatim>\<open>"HEADER_OUT_FEILD":"REQUEST_ID,TA_SID,TA_CLNT"\<close>).
  \<open>out_fields\<close> reads that string as the list it stands for, as \<^verbatim>\<open>s.split(",")\<close> would.
\<close>

fun split_at :: "char \<Rightarrow> string \<Rightarrow> string \<Rightarrow> string list" where
  "split_at sep [] cur = [rev cur]"
| "split_at sep (c # cs) cur =
     (if c = sep then rev cur # split_at sep cs [] else split_at sep cs (c # cur))"

definition out_fields :: "json \<Rightarrow> string \<Rightarrow> string list" where
  "out_fields payload key =
     (case obj_get payload key of Some (JStr s) \<Rightarrow> split_at CHR '','' s [] | _ \<Rightarrow> [])"

fun json_path :: "json \<Rightarrow> string list \<Rightarrow> json option" where
  \<comment> \<open>the value reached by a chain of keys\<close>
  "json_path j [] = Some j"
| "json_path j (k # ks) = (case obj_get j k of None \<Rightarrow> None | Some v \<Rightarrow> json_path v ks)"

definition selop_item_path :: "string list" where
  \<comment> \<open>from the BCM schema down to the description of one \<^verbatim>\<open>VALUE_SELOP\<close> entry\<close>
  "selop_item_path =
     [''function'', ''parameters'', ''properties'', ''payload'', ''properties'', ''HEADER_FILTER'',
      ''items'', ''properties'', ''VALUE_SELOP'', ''items'']"

section \<open>Concrete runs\<close>

definition connect_timeout :: exn where
  "connect_timeout = Exn (OtherError ''ConnectTimeout'') ''timed out''"

definition loads_example :: "string \<Rightarrow> exn + json" where
  \<comment> \<open>\<^verbatim>\<open>json.loads\<close> on the argument texts used below\<close>
  \<open>loads_example s =
     (if s = ''{}'' then Inr (JObj [])
      else if s = ''{"payload": {}}'' then Inr (JObj [(''payload'', JObj [])])
      else Inl (Exn ValueError ''Expecting value''))\<close>

definition resp_ok :: http_response where
  "resp_ok = \<lparr> status_code = 200, body_text = ''[]'', on_raise_for_status = None,
               on_json = Inr (JArr []) \<rparr>"

definition call_1 :: tool_call where
  "call_1 = \<lparr> call_id = ''call_1'', fn_name = ''get_BCM_Request'', fn_arguments = ''{}'' \<rparr>"

definition call_2 :: tool_call where
  \<open>call_2 = \<lparr> call_id = ''call_2'', fn_name = ''get_BCM_Request'',
              fn_arguments = ''{"payload": {}}'' \<rparr>\<close>

definition unknown_call :: tool_call where
  "unknown_call = \<lparr> call_id = ''call_1'', fn_name = ''get_unknown_thing'', fn_arguments = ''{}'' \<rparr>"

definition reply_after_tools :: chat_message where
  "reply_after_tools = \<lparr> content = Some ''No BCM request was found.'', tool_calls = None \<rparr>"

text \<open>The backend answers; the model asks for two BCM searches in its first reply.\<close>

definition env_two_calls :: env where
  "env_two_calls =
     \<lparr> backend = (\<lambda>req. Inr resp_ok),
       chat_create = (\<lambda>ms ts. if length ms = 2
                               then Inr \<lparr> content = None, tool_calls = Some [call_1, call_2] \<rparr>
                               else Inr reply_after_tools),
       json_loads = loads_example,
       py_str = (\<lambda>v. []) \<rparr>"

text \<open>The model answers in text, without any tool call.\<close>

definition env_plain_answer :: env where
  "env_plain_answer =
     \<lparr> backend = (\<lambda>req. Inr resp_ok),
       chat_create = (\<lambda>ms ts. Inr \<lparr> content = Some ''CCF has no open BCM request.'',
                                      tool_calls = None \<rparr>),
       json_loads = loads_example,
       py_str = (\<lambda>v. []) \<rparr>"

text \<open>The model asks for a tool that the dispatcher does not know.\<close>

definition env_unknown_tool :: env where
  "env_unknown_tool =
     \<lparr> backend = (\<lambda>req. Inr resp_ok),
       chat_create = (\<lambda>ms ts. if length ms = 2
                               then Inr \<lparr> content = None, tool_calls = Some [unknown_call] \<rparr>
                               else Inr reply_after_tools),
       json_loads = loads_example,
       py_str = (\<lambda>v. []) \<rparr>"

text \<open>The model asks for one BCM search and the connection to the backend times out.\<close>

definition env_backend_down :: env where
  "env_backend_down =
     \<lparr> backend = (\<lambda>req. Inl connect_timeout),
       chat_create = (\<lambda>ms ts. if length ms = 2
                               then Inr \<lparr> content = None, tool_calls = Some [call_1] \<rparr>
                               else Inr reply_after_tools),
       json_loads = loads_example,
       py_str = (\<lambda>v. []) \<rparr>"

text \<open>The backend answers 200 with a body that reports an error.\<close>

definition api_error_body :: json where
  "api_error_body = JObj [(''error'', JStr ''System CCF not found'')]"

definition resp_api_error :: http_response where
  \<open>resp_api_error = \<lparr> status_code = 200, body_text = ''{"error": "System CCF not found"}'',
                      on_raise_for_status = None, on_json = Inr api_error_body \<rparr>\<close>

definition env_api_error :: env where
  "env_api_error =
     \<lparr> backend = (\<lambda>req. Inr resp_api_error),
       chat_create = (\<lambda>ms ts. Inr reply_after_tools),
       json_loads = loads_example,
       py_str = (\<lambda>v. []) \<rparr>"

text \<open>The task awaiting the backend is cancelled: the \<^verbatim>\<open>await\<close> raises \<^verbatim>\<open>CancelledError\<close>.\<close>

definition cancelled :: exn where
  "cancelled = Exn (NotException ''CancelledError'') []"

definition env_cancelled :: env where
  "env_cancelled =
     \<lparr> backend = (\<lambda>req. Inl cancelled),
       chat_create = (\<lambda>ms ts. Inr reply_after_tools),
       json_loads = loads_example,
       py_str = (\<lambda>v. []) \<rparr>"

text \<open>
  A selection option with operator \<^verbatim>\<open>EQ\<close> and an upper limit, and a payload carrying it;
  a payload that names an output field twice.
\<close>

definition equal_with_high :: json where
  "equal_with_high =
     JObj [(''SIGN'', JStr ''I''), (''OPTION'', JStr ''EQ''), (''LOW'', JStr ''A''),
           (''HIGH'', JStr ''Z'')]"

definition payload_equal_with_high :: json where
  "payload_equal_with_high =
     JObj [(''HEADER_FILTER'',
            JArr [JObj [(''FIELDNAME'', JStr ''REQUEST_ID''),
                        (''VALUE_SELOP'', JArr [equal_with_high])]]),
           (''HEADER_OUT_FEILD'', JStr ''REQUEST_ID,TA_SID,TA_CLNT'')]"

definition payload_repeated_field :: json where
  "payload_repeated_field =
     JObj [(''HEADER_FILTER'', JArr []),
           (''HEADER_OUT_FEILD'', JStr ''REQUEST_ID,TA_SID,REQUEST_ID'')]"

section \<open>Auxiliary facts\<close>

lemma length_messages: "length messages = 2"
  by (simp add: messages_def)

lemma messages_no_result: "filter is_result messages = []"
  by (simp add: messages_def)

text \<open>The exchange behind \<open>fetch_json\<close>, read off the backend and the response.\<close>

lemma fetch_json_answers:
  "(fetch_json env req = Inr body)
     = (\<exists>resp. backend env req = Inr resp \<and> on_raise_for_status resp = None
                \<and> on_json resp = Inr body)"
  by (auto simp: fetch_json_def split: sum.splits option.splits)

lemma fetch_json_raises:
  "(fetch_json env req = Inl exc)
     = (backend env req = Inl exc
        \<or> (\<exists>resp. backend env req = Inr resp
                   \<and> (on_raise_for_status resp = Some exc
                        \<or> on_raise_for_status resp = None \<and> on_json resp = Inl exc)))"
  by (auto simp: fetch_json_def split: sum.splits option.splits)

lemma schema_names:
  "map schema_name tools = [Some ''search_system_flexi'', Some ''get_entity_details'']"
  by (simp add: tools_def get_all_schemas_def schema_name_def
      get_search_system_flexi_schema_def get_entity_details_schema_def)

lemma call_function_None_iff:
  "(snd (call_function env name args) = Inr None) = (name \<noteq> ''get_BCM_Request'')"
  by (simp add: call_function_def split: prod.splits sum.splits)

lemma bcm_request_body: "json_body (bcm_request env payload endpoint) = payload"
  by (simp add: bcm_request_def)

lemma search_BCM_Request_sent:
  "fst (search_BCM_Request env payload method endpoint) = [bcm_request env payload endpoint]"
  by (simp add: search_BCM_Request_def Let_def split: sum.splits)

text \<open>
  The schema asks for \<^verbatim>\<open>SIGN\<close>, \<^verbatim>\<open>OPTION\<close> and \<^verbatim>\<open>LOW\<close> in every selection option and
  describes \<^verbatim>\<open>HIGH\<close> as one more string, whatever the operator.
\<close>

lemma selop_schema_required:
  "json_path get_BCM_request_schema (selop_item_path @ [''required''])
     = Some (JArr [JStr ''SIGN'', JStr ''OPTION'', JStr ''LOW''])"
  by (simp add: get_BCM_request_schema_def selop_item_path_def obj_get_def)

lemma selop_schema_high:
  "json_path get_BCM_request_schema (selop_item_path @ [''properties'', ''HIGH''])
     = Some (JObj [(''type'', JStr ''string''),
                   (''description'',
                    JStr ''The upper limit of the value range for the filter condition.'')])"
  by (simp add: get_BCM_request_schema_def selop_item_path_def obj_get_def)

text \<open>No backend caller repeats its request: each call issues one request at most.\<close>

lemma backend_callers_send_once:
  "length (fst (aicockpit_get_system_details env sid objid sysType sections base_url)) \<le> 1"
  "length (fst (aicockpit_get_sections env base_url)) = 1"
  "length (fst (search_BCM_Request env payload method endpoint)) = 1"
  by (simp_all add: aicockpit_get_system_details_def system_details_try_def
      aicockpit_get_sections_def sections_try_def search_BCM_Request_def Let_def
      split: sum.splits prod.splits)

text \<open>
  When every argument text parses, the loop ends with its variables bound to the last tool
  call and to the arguments of the last tool call.
\<close>

lemma for_tool_calls_last:
  "\<forall>tc \<in> set tcs. \<exists>a. json_loads env (fn_arguments tc) = Inr a \<Longrightarrow> tcs \<noteq> [] \<Longrightarrow>
   json_loads env (fn_arguments (last tcs)) = Inr arguments \<Longrightarrow>
   for_tool_calls env tcs bound = Inr (Some (last tcs, arguments))"
proof (induction tcs arbitrary: bound)
  case Nil
  then show ?case by simp
next
  case (Cons tc rest)
  then show ?case
    by (cases rest) (auto split: sum.splits)
qed

text \<open>Whatever the model asks for, a run appends at most one result to the conversation.\<close>

lemma execute_tools_at_most_one_result:
  "length (filter is_result (msgs (fst (execute_tools env tcs)))) \<le> 1"
  by (simp add: execute_tools_def Let_def messages_no_result
      split: sum.splits option.splits prod.splits)

lemma run_at_most_one_result:
  "length (filter is_result (msgs (fst (run env)))) \<le> 1"
  using execute_tools_at_most_one_result [of env]
  by (auto simp: run_def messages_no_result split: sum.splits option.splits list.splits)

section \<open>The orchestration\<close>

text \<open>
  C1. A reply with N tool calls should leave N results in the conversation before the second
  completion call, one per call and under its identifier. The script calls the dispatcher
  once, after the loop, for the last tool call only: on a reply with the two calls
  \<open>call_1\<close> and \<open>call_2\<close>, both well-formed BCM searches that the backend answers, the
  conversation sent to the second completion call holds a single result, the one of
  \<open>call_2\<close>; \<open>call_1\<close> is never executed (one backend request) and never answered.
\<close>

theorem run_two_calls_one_result:
  "run env_two_calls =
     (\<lparr> msgs = messages @ [AssistantCalls [call_1, call_2], ToolMsg ''call_2'' (JArr [])],
        http_log = [bcm_request env_two_calls (JObj []) (JStr bcm_default_endpoint)],
        chat_log = [(messages, tools),
                    (messages @ [AssistantCalls [call_1, call_2], ToolMsg ''call_2'' (JArr [])],
                     tools)] \<rparr>,
      Done (Some ''No BCM request was found.''))
   \<and> length (filter is_result (msgs (fst (run env_two_calls)))) = 1"
  by (simp add: run_def execute_tools_def env_two_calls_def length_messages call_1_def call_2_def
      loads_example_def call_function_def call_search_BCM_Request_def search_BCM_Request_def
      bcm_params_def arg_def resp_ok_def result_message_def response_json_def
      reply_after_tools_def or_no_content_def Let_def messages_def)

text \<open>
  C6. When the first reply carries no tool call (\<^verbatim>\<open>tool_calls\<close> is \<^verbatim>\<open>None\<close> or empty), the
  run is done with the text of that reply: no backend request is issued, the completion
  service is called exactly once, and the conversation is left as it was.
\<close>

theorem no_tool_calls_done:
  "chat_create env messages tools = Inr response \<Longrightarrow>
   tool_calls response = None \<or> tool_calls response = Some [] \<Longrightarrow>
   run env = (\<lparr> msgs = messages, http_log = [], chat_log = [(messages, tools)] \<rparr>,
              Done (content response))"
  by (auto simp: run_def)

theorem no_tool_calls_done_witness:
  "chat_create env_plain_answer messages tools
     = Inr \<lparr> content = Some ''CCF has no open BCM request.'', tool_calls = None \<rparr>
   \<and> run env_plain_answer
     = (\<lparr> msgs = messages, http_log = [], chat_log = [(messages, tools)] \<rparr>,
        Done (Some ''CCF has no open BCM request.''))"
  using no_tool_calls_done [of env_plain_answer
      "\<lparr> content = Some ''CCF has no open BCM request.'', tool_calls = None \<rparr>"]
  by (simp add: env_plain_answer_def)

text \<open>
  C4. A tool call whose name the dispatcher does not know should give a failure result and
  a run that still ends with an answer. The dispatcher returns \<^verbatim>\<open>None\<close> for every name but
  \<^verbatim>\<open>get_BCM_Request\<close>; \<^verbatim>\<open>None.json()\<close> raises inside the \<^verbatim>\<open>try\<close>, and the handler then
  reads \<^verbatim>\<open>None.text\<close>, which raises again with nothing to catch it: the run ends with an
  AttributeError, no result appended, no second completion call.
\<close>

theorem unknown_tool_raises:
  assumes "chat_create env messages tools = Inr response"
    and "tool_calls response = Some tcs" and "tcs \<noteq> []"
    and "\<forall>tc \<in> set tcs. \<exists>a. json_loads env (fn_arguments tc) = Inr a"
    and "fn_name (last tcs) \<noteq> ''get_BCM_Request''"
  shows "run env = (\<lparr> msgs = messages @ [AssistantCalls tcs], http_log = [],
                      chat_log = [(messages, tools)] \<rparr>,
                    Raised (no_attribute ''NoneType'' ''text''))"
proof -
  from assms(4) assms(3) obtain arguments
    where a: "json_loads env (fn_arguments (last tcs)) = Inr arguments"
    by (meson last_in_set)
  have l: "for_tool_calls env tcs None = Inr (Some (last tcs, arguments))"
    by (rule for_tool_calls_last [OF assms(4) assms(3) a])
  have c: "call_function env (fn_name (last tcs)) arguments = ([], Inr None)"
    using assms(5) by (simp add: call_function_def)
  have r: "result_message (last tcs) None = Inl (no_attribute ''NoneType'' ''text'')"
    by (simp add: result_message_def response_json_def response_text_def no_attribute_def)
  have "run env = execute_tools env tcs"
    using assms(1,2,3) by (cases tcs) (simp_all add: run_def)
  also have "\<dots> = (\<lparr> msgs = messages @ [AssistantCalls tcs], http_log = [],
                      chat_log = [(messages, tools)] \<rparr>,
                    Raised (no_attribute ''NoneType'' ''text''))"
    by (simp add: execute_tools_def Let_def l c r)
  finally show ?thesis .
qed

theorem unknown_tool_raises_witness:
  "chat_create env_unknown_tool messages tools
     = Inr \<lparr> content = None, tool_calls = Some [unknown_call] \<rparr>
   \<and> fn_name (last [unknown_call]) = ''get_unknown_thing''
   \<and> run env_unknown_tool
     = (\<lparr> msgs = messages @ [AssistantCalls [unknown_call]], http_log = [],
          chat_log = [(messages, tools)] \<rparr>,
        Raised (Exn AttributeError (sq ''NoneType'' @ '' object has no attribute '' @ sq ''text'')))"
  using unknown_tool_raises [of env_unknown_tool
      "\<lparr> content = None, tool_calls = Some [unknown_call] \<rparr>" "[unknown_call]"]
  by (simp add: env_unknown_tool_def length_messages unknown_call_def loads_example_def
      no_attribute_def)

text \<open>
  C5. A transport failure during a backend call should become a failure result in the
  conversation, and the run should still end with an answer. \<^verbatim>\<open>search_BCM_Request\<close> calls
  \<^verbatim>\<open>requests.post\<close> outside any \<^verbatim>\<open>try\<close>, and the script calls the dispatcher before its own
  \<^verbatim>\<open>try\<close> starts: the exception of the transport leaves the run as it is, after the one
  request, with no result appended and no second completion call.
\<close>

theorem backend_failure_leaves_the_run:
  assumes "chat_create env messages tools = Inr response"
    and "tool_calls response = Some tcs" and "tcs \<noteq> []"
    and "\<forall>tc \<in> set tcs. \<exists>a. json_loads env (fn_arguments tc) = Inr a"
    and "fn_name (last tcs) = ''get_BCM_Request''"
    and "json_loads env (fn_arguments (last tcs)) = Inr (JObj kvs)"
    and "set (map fst kvs) \<subseteq> set bcm_params"
    and "backend env (bcm_request env (arg kvs ''payload'' JNull)
                        (arg kvs ''endpoint'' (JStr bcm_default_endpoint))) = Inl exc"
  shows "run env = (\<lparr> msgs = messages @ [AssistantCalls tcs],
                      http_log = [bcm_request env (arg kvs ''payload'' JNull)
                                    (arg kvs ''endpoint'' (JStr bcm_default_endpoint))],
                      chat_log = [(messages, tools)] \<rparr>,
                    Raised exc)"
proof -
  have l: "for_tool_calls env tcs None = Inr (Some (last tcs, JObj kvs))"
    by (rule for_tool_calls_last [OF assms(4) assms(3) assms(6)])
  have f: "filter (\<lambda>k. k \<notin> set bcm_params) (map fst kvs) = []"
    using assms(7) by (auto simp: filter_empty_conv)
  have c: "call_function env (fn_name (last tcs)) (JObj kvs)
             = ([bcm_request env (arg kvs ''payload'' JNull)
                   (arg kvs ''endpoint'' (JStr bcm_default_endpoint))], Inl exc)"
    using assms(5) assms(8)
    by (simp add: call_function_def call_search_BCM_Request_def f search_BCM_Request_def Let_def)
  have "run env = execute_tools env tcs"
    using assms(1,2,3) by (cases tcs) (simp_all add: run_def)
  also have "\<dots> = (\<lparr> msgs = messages @ [AssistantCalls tcs],
                      http_log = [bcm_request env (arg kvs ''payload'' JNull)
                                    (arg kvs ''endpoint'' (JStr bcm_default_endpoint))],
                      chat_log = [(messages, tools)] \<rparr>,
                    Raised exc)"
    by (simp add: execute_tools_def Let_def l c)
  finally show ?thesis .
qed

theorem backend_failure_leaves_the_run_witness:
  "chat_create env_backend_down messages tools
     = Inr \<lparr> content = None, tool_calls = Some [call_1] \<rparr>
   \<and> json_loads env_backend_down (fn_arguments (last [call_1])) = Inr (JObj [])
   \<and> backend env_backend_down (bcm_request env_backend_down JNull (JStr bcm_default_endpoint))
       = Inl connect_timeout
   \<and> run env_backend_down
       = (\<lparr> msgs = messages @ [AssistantCalls [call_1]],
            http_log = [bcm_request env_backend_down JNull (JStr bcm_default_endpoint)],
            chat_log = [(messages, tools)] \<rparr>,
          Raised connect_timeout)"
  using backend_failure_leaves_the_run [of env_backend_down
      "\<lparr> content = None, tool_calls = Some [call_1] \<rparr>" "[call_1]" "[]" connect_timeout]
  by (simp add: env_backend_down_def length_messages call_1_def loads_example_def arg_def)

section \<open>The dispatcher and the advertised schemas\<close>

text \<open>
  C3. The schemas given to the model are those of \<^verbatim>\<open>get_all_schemas\<close>, named
  \<^verbatim>\<open>search_system_flexi\<close> and \<^verbatim>\<open>get_entity_details\<close>. For each advertised name the dispatcher
  returns \<^verbatim>\<open>None\<close> and issues no request. The dispatcher's result is \<^verbatim>\<open>None\<close> for exactly
  the names other than \<^verbatim>\<open>get_BCM_Request\<close>, and that name is not advertised.
\<close>

theorem advertised_tools_dispatch_to_None:
  "map schema_name tools = [Some ''search_system_flexi'', Some ''get_entity_details'']
   \<and> (\<forall>s \<in> set tools. \<forall>name. schema_name s = Some name \<longrightarrow>
         call_function env name args = ([], Inr None))
   \<and> (\<forall>name. (snd (call_function env name args) = Inr None) = (name \<noteq> ''get_BCM_Request''))
   \<and> Some ''get_BCM_Request'' \<notin> set (map schema_name tools)"
proof (intro conjI)
  show n: "map schema_name tools = [Some ''search_system_flexi'', Some ''get_entity_details'']"
    by (rule schema_names)
  show "\<forall>s \<in> set tools. \<forall>name. schema_name s = Some name \<longrightarrow>
         call_function env name args = ([], Inr None)"
  proof (intro ballI allI impI)
    fix s name assume "s \<in> set tools" "schema_name s = Some name"
    then have "Some name \<in> set (map schema_name tools)" by force
    then have "name = ''search_system_flexi'' \<or> name = ''get_entity_details''"
      unfolding n by simp
    then show "call_function env name args = ([], Inr None)"
      by (auto simp: call_function_def)
  qed
  show "\<forall>name. (snd (call_function env name args) = Inr None) = (name \<noteq> ''get_BCM_Request'')"
    by (simp add: call_function_None_iff)
  show "Some ''get_BCM_Request'' \<notin> set (map schema_name tools)"
    unfolding n by simp
qed

theorem advertised_tools_dispatch_to_None_witness:
  "get_entity_details_schema \<in> set tools
   \<and> schema_name get_entity_details_schema = Some ''get_entity_details''
   \<and> call_function env_plain_answer ''get_entity_details'' (JObj []) = ([], Inr None)"
proof -
  have a: "get_entity_details_schema \<in> set tools"
    by (simp add: tools_def get_all_schemas_def)
  have b: "schema_name get_entity_details_schema = Some ''get_entity_details''"
    by (simp add: schema_name_def get_entity_details_schema_def)
  from advertised_tools_dispatch_to_None [of env_plain_answer "JObj []"] a b
  have "call_function env_plain_answer ''get_entity_details'' (JObj []) = ([], Inr None)"
    by blast
  with a b show ?thesis by simp
qed

section \<open>The BCM search\<close>

text \<open>
  C2 (as the code has it). \<^verbatim>\<open>search_BCM_Request\<close> does not look into its payload: whatever
  the selection options in it, it issues exactly one POST whose JSON body is the payload as
  received, and what it returns depends on the backend's answer alone. No combination of
  operator and upper limit is rejected, before or after the request.
\<close>

theorem search_forwards_unchecked_payload:
  "fst (search_BCM_Request env payload method endpoint) = [bcm_request env payload endpoint]
   \<and> json_body (bcm_request env payload endpoint) = payload
   \<and> snd (search_BCM_Request env payload method endpoint)
       = (case backend env (bcm_request env payload endpoint) of
            Inl exc \<Rightarrow> Inl exc
          | Inr resp \<Rightarrow>
              (case on_json resp of
                 Inr result \<Rightarrow> Inr resp
               | Inl exc \<Rightarrow> if cls exc = ValueError then Inr resp else Inl exc))"
  by (simp add: search_BCM_Request_def bcm_request_body Let_def split: sum.splits)

text \<open>
  A selection option with operator \<^verbatim>\<open>EQ\<close> and an upper limit \<^verbatim>\<open>HIGH\<close> is sent to the backend
  as it is, and the search returns the backend's response.
\<close>

theorem equal_with_high_is_forwarded:
  "obj_get equal_with_high ''OPTION'' = Some (JStr ''EQ'')
   \<and> obj_get equal_with_high ''HIGH'' = Some (JStr ''Z'')
   \<and> search_BCM_Request env_two_calls payload_equal_with_high (JStr ''POST'')
         (JStr bcm_default_endpoint)
       = ([bcm_request env_two_calls payload_equal_with_high (JStr bcm_default_endpoint)],
          Inr resp_ok)
   \<and> json_body (bcm_request env_two_calls payload_equal_with_high (JStr bcm_default_endpoint))
       = payload_equal_with_high"
  by (simp add: obj_get_def equal_with_high_def search_BCM_Request_def env_two_calls_def
      resp_ok_def bcm_request_body Let_def)

text \<open>
  C7 (as the code has it). The output fields of every group reach the backend exactly as
  they were given: the same names in the same order, a repeated name as often as it was
  written.
\<close>

theorem search_keeps_out_fields:
  "fst (search_BCM_Request env payload method endpoint) = [bcm_request env payload endpoint]
   \<and> out_fields (json_body (bcm_request env payload endpoint)) key = out_fields payload key"
  by (simp add: search_BCM_Request_sent bcm_request_body)

text \<open>A field named twice is sent twice.\<close>

theorem repeated_out_field_is_forwarded:
  "fst (search_BCM_Request env_two_calls payload_repeated_field (JStr ''POST'')
          (JStr bcm_default_endpoint))
     = [bcm_request env_two_calls payload_repeated_field (JStr bcm_default_endpoint)]
   \<and> out_fields (json_body (bcm_request env_two_calls payload_repeated_field
                                (JStr bcm_default_endpoint))) ''HEADER_OUT_FEILD''
     = [''REQUEST_ID'', ''TA_SID'', ''REQUEST_ID'']
   \<and> \<not> distinct (out_fields (json_body (bcm_request env_two_calls payload_repeated_field
                                           (JStr bcm_default_endpoint))) ''HEADER_OUT_FEILD'')"
  by (simp add: search_BCM_Request_sent bcm_request_body out_fields_def obj_get_def
      payload_repeated_field_def)

text \<open>
  C8. Every backend request should carry the timeout of 30. The two AICockpit requests do;
  the request of \<^verbatim>\<open>search_BCM_Request\<close> is made without any timeout, for every payload and
  endpoint.
\<close>

theorem bcm_request_has_no_timeout:
  "map timeout (fst (search_BCM_Request env payload method endpoint)) = [None]
   \<and> timeout (system_details_request sid objid sysType sections base_url) = Some 30
   \<and> timeout (sections_request base_url) = Some 30"
  by (simp add: search_BCM_Request_def bcm_request_def system_details_request_def
      sections_request_def Let_def split: sum.splits)

section \<open>The AICockpit lookups\<close>

text \<open>
  C9. A system-detail lookup given neither \<^verbatim>\<open>sid\<close> nor \<^verbatim>\<open>objid\<close> (each \<^verbatim>\<open>None\<close> or empty)
  returns the error descriptor of the validation step and issues no request.
\<close>

theorem system_details_requires_identifier:
  "\<not> truthy sid \<Longrightarrow> \<not> truthy objid \<Longrightarrow>
   aicockpit_get_system_details env sid objid sysType sections base_url
     = ([], Inr validation_error)
   \<and> obj_get validation_error ''step'' = Some (JStr ''validation'')
   \<and> obj_get validation_error ''error''
       = Some (JStr ''Either 'sid' or 'objid' parameter is required'')"
  by (simp add: aicockpit_get_system_details_def system_details_try_def validation_error_def
      obj_get_def)

theorem system_details_requires_identifier_witness:
  "\<not> truthy None \<and> \<not> truthy None \<and>
   aicockpit_get_system_details env_backend_down None None ''ABAPSystem'' None None
     = ([], Inr validation_error)"
  using system_details_requires_identifier [of None None env_backend_down "''ABAPSystem''" None None]
  by (simp add: truthy_def)

text \<open>
  C10 (as the code has it). What the two lookups return, path by path. Without \<^verbatim>\<open>sid\<close> and
  \<^verbatim>\<open>objid\<close> the system-detail lookup returns the descriptor of the \<^verbatim>\<open>validation\<close> step.
  When the exchange with the backend raises an instance of \<^verbatim>\<open>Exception\<close>, the lookup returns
  the descriptor made of the text of that exception and of its own step,
  \<^verbatim>\<open>fetch_system_data\<close> or \<^verbatim>\<open>fetch_sections\<close>; a sections body that is not an object raises
  the AttributeError of \<^verbatim>\<open>result.get\<close> and ends the same way. An exception that is no
  instance of \<^verbatim>\<open>Exception\<close> leaves the lookup. Every body that the backend answers and that
  parses is returned as it is, an object that reports an error included: the lookup adds no
  \<^verbatim>\<open>step\<close> key to it.
\<close>

theorem aicockpit_results:
  "(\<not> truthy sid \<and> \<not> truthy objid \<longrightarrow>
      aicockpit_get_system_details env sid objid sysType sections base_url
        = ([], Inr (JObj [(''error'', JStr ''Either 'sid' or 'objid' parameter is required''),
                          (''step'', JStr ''validation'')])))
   \<and> (truthy sid \<or> truthy objid \<longrightarrow>
        fetch_json env (system_details_request sid objid sysType sections base_url) = Inr body \<longrightarrow>
        aicockpit_get_system_details env sid objid sysType sections base_url
          = ([system_details_request sid objid sysType sections base_url], Inr body))
   \<and> (truthy sid \<or> truthy objid \<longrightarrow>
        fetch_json env (system_details_request sid objid sysType sections base_url) = Inl exc \<longrightarrow>
        is_Exception exc \<longrightarrow>
        aicockpit_get_system_details env sid objid sysType sections base_url
          = ([system_details_request sid objid sysType sections base_url],
             Inr (JObj [(''error'', JStr (''Error in aicockpit_get_system_details: '' @ msg exc)),
                        (''step'', JStr ''fetch_system_data'')])))
   \<and> (truthy sid \<or> truthy objid \<longrightarrow>
        fetch_json env (system_details_request sid objid sysType sections base_url) = Inl exc \<longrightarrow>
        \<not> is_Exception exc \<longrightarrow>
        aicockpit_get_system_details env sid objid sysType sections base_url
          = ([system_details_request sid objid sysType sections base_url], Inl exc))
   \<and> (fetch_json env (sections_request base_url) = Inr (JObj kvs) \<longrightarrow>
        aicockpit_get_sections env base_url = ([sections_request base_url], Inr (JObj kvs)))
   \<and> (fetch_json env (sections_request base_url) = Inr sbody \<longrightarrow>
        py_type_name sbody \<noteq> ''dict'' \<longrightarrow>
        aicockpit_get_sections env base_url
          = ([sections_request base_url],
             Inr (JObj [(''error'', JStr (''Error in aicockpit_get_sections: ''
                                          @ sq (py_type_name sbody)
                                          @ '' object has no attribute '' @ sq ''get'')),
                        (''step'', JStr ''fetch_sections'')])))
   \<and> (fetch_json env (sections_request base_url) = Inl sexc \<longrightarrow>
        is_Exception sexc \<longrightarrow>
        aicockpit_get_sections env base_url
          = ([sections_request base_url],
             Inr (JObj [(''error'', JStr (''Error in aicockpit_get_sections: '' @ msg sexc)),
                        (''step'', JStr ''fetch_sections'')])))
   \<and> (fetch_json env (sections_request base_url) = Inl sexc \<longrightarrow>
        \<not> is_Exception sexc \<longrightarrow>
        aicockpit_get_sections env base_url = ([sections_request base_url], Inl sexc))"
proof (intro conjI impI)
  assume "\<not> truthy sid \<and> \<not> truthy objid"
  then show "aicockpit_get_system_details env sid objid sysType sections base_url
        = ([], Inr (JObj [(''error'', JStr ''Either 'sid' or 'objid' parameter is required''),
                          (''step'', JStr ''validation'')]))"
    by (simp add: aicockpit_get_system_details_def system_details_try_def validation_error_def)
next
  assume "truthy sid \<or> truthy objid"
    and "fetch_json env (system_details_request sid objid sysType sections base_url) = Inr body"
  then show "aicockpit_get_system_details env sid objid sysType sections base_url
          = ([system_details_request sid objid sysType sections base_url], Inr body)"
    by (auto simp: aicockpit_get_system_details_def system_details_try_def Let_def)
next
  assume "truthy sid \<or> truthy objid"
    and "fetch_json env (system_details_request sid objid sysType sections base_url) = Inl exc"
    and "is_Exception exc"
  then show "aicockpit_get_system_details env sid objid sysType sections base_url
          = ([system_details_request sid objid sysType sections base_url],
             Inr (JObj [(''error'', JStr (''Error in aicockpit_get_system_details: '' @ msg exc)),
                        (''step'', JStr ''fetch_system_data'')]))"
    by (auto simp: aicockpit_get_system_details_def system_details_try_def Let_def)
next
  assume "truthy sid \<or> truthy objid"
    and "fetch_json env (system_details_request sid objid sysType sections base_url) = Inl exc"
    and "\<not> is_Exception exc"
  then show "aicockpit_get_system_details env sid objid sysType sections base_url
          = ([system_details_request sid objid sysType sections base_url], Inl exc)"
    by (auto simp: aicockpit_get_system_details_def system_details_try_def Let_def)
next
  assume "fetch_json env (sections_request base_url) = Inr (JObj kvs)"
  then show "aicockpit_get_sections env base_url = ([sections_request base_url], Inr (JObj kvs))"
    by (simp add: aicockpit_get_sections_def sections_try_def result_get_def Let_def)
next
  assume "fetch_json env (sections_request base_url) = Inr sbody"
    and "py_type_name sbody \<noteq> ''dict''"
  then show "aicockpit_get_sections env base_url
          = ([sections_request base_url],
             Inr (JObj [(''error'', JStr (''Error in aicockpit_get_sections: ''
                                          @ sq (py_type_name sbody)
                                          @ '' object has no attribute '' @ sq ''get'')),
                        (''step'', JStr ''fetch_sections'')]))"
    by (cases sbody)
       (simp_all add: aicockpit_get_sections_def sections_try_def result_get_def Let_def
          no_attribute_def)
next
  assume "fetch_json env (sections_request base_url) = Inl sexc" and "is_Exception sexc"
  then show "aicockpit_get_sections env base_url
          = ([sections_request base_url],
             Inr (JObj [(''error'', JStr (''Error in aicockpit_get_sections: '' @ msg sexc)),
                        (''step'', JStr ''fetch_sections'')]))"
    by (simp add: aicockpit_get_sections_def sections_try_def Let_def)
next
  assume "fetch_json env (sections_request base_url) = Inl sexc" and "\<not> is_Exception sexc"
  then show "aicockpit_get_sections env base_url = ([sections_request base_url], Inl sexc)"
    by (simp add: aicockpit_get_sections_def sections_try_def Let_def)
qed

text \<open>
  Each path at a concrete backend: one that times out, one that answers with an error body,
  one whose call is cancelled at the \<^verbatim>\<open>await\<close>, one that answers the sections request with a
  list; and a lookup without identifiers.
\<close>

theorem aicockpit_results_witness:
  "\<not> truthy None
   \<and> aicockpit_get_system_details env_backend_down None None ''ABAPSystem'' None None
       = ([], Inr (JObj [(''error'', JStr ''Either 'sid' or 'objid' parameter is required''),
                         (''step'', JStr ''validation'')]))
   \<and> truthy (Some ''CCF'')
   \<and> fetch_json env_api_error (system_details_request (Some ''CCF'') None ''ABAPSystem'' None None)
       = Inr api_error_body
   \<and> aicockpit_get_system_details env_api_error (Some ''CCF'') None ''ABAPSystem'' None None
       = ([system_details_request (Some ''CCF'') None ''ABAPSystem'' None None], Inr api_error_body)
   \<and> fetch_json env_backend_down (system_details_request (Some ''CCF'') None ''ABAPSystem'' None None)
       = Inl connect_timeout
   \<and> is_Exception connect_timeout
   \<and> aicockpit_get_system_details env_backend_down (Some ''CCF'') None ''ABAPSystem'' None None
       = ([system_details_request (Some ''CCF'') None ''ABAPSystem'' None None],
          Inr (JObj [(''error'', JStr ''Error in aicockpit_get_system_details: timed out''),
                     (''step'', JStr ''fetch_system_data'')]))
   \<and> fetch_json env_cancelled (system_details_request (Some ''CCF'') None ''ABAPSystem'' None None)
       = Inl cancelled
   \<and> \<not> is_Exception cancelled
   \<and> aicockpit_get_system_details env_cancelled (Some ''CCF'') None ''ABAPSystem'' None None
       = ([system_details_request (Some ''CCF'') None ''ABAPSystem'' None None], Inl cancelled)
   \<and> fetch_json env_api_error (sections_request None) = Inr api_error_body
   \<and> aicockpit_get_sections env_api_error None = ([sections_request None], Inr api_error_body)
   \<and> fetch_json env_two_calls (sections_request None) = Inr (JArr [])
   \<and> py_type_name (JArr []) \<noteq> ''dict''
   \<and> aicockpit_get_sections env_two_calls None
       = ([sections_request None],
          Inr (JObj [(''error'', JStr (''Error in aicockpit_get_sections: '' @ sq ''list''
                                       @ '' object has no attribute '' @ sq ''get'')),
                     (''step'', JStr ''fetch_sections'')]))
   \<and> fetch_json env_backend_down (sections_request None) = Inl connect_timeout
   \<and> aicockpit_get_sections env_backend_down None
       = ([sections_request None],
          Inr (JObj [(''error'', JStr ''Error in aicockpit_get_sections: timed out''),
                     (''step'', JStr ''fetch_sections'')]))
   \<and> fetch_json env_cancelled (sections_request None) = Inl cancelled
   \<and> aicockpit_get_sections env_cancelled None = ([sections_request None], Inl cancelled)"
proof -
  have f1: "fetch_json env_api_error req = Inr api_error_body" for req
    by (simp add: fetch_json_def env_api_error_def resp_api_error_def)
  have f2: "fetch_json env_backend_down req = Inl connect_timeout" for req
    by (simp add: fetch_json_def env_backend_down_def)
  have f3: "fetch_json env_cancelled req = Inl cancelled" for req
    by (simp add: fetch_json_def env_cancelled_def)
  have f4: "fetch_json env_two_calls req = Inr (JArr [])" for req
    by (simp add: fetch_json_def env_two_calls_def resp_ok_def)
  have e1: "is_Exception connect_timeout" and e2: "\<not> is_Exception cancelled"
    by (simp_all add: connect_timeout_def cancelled_def)
  have t: "\<not> truthy None" "truthy (Some ''CCF'')"
    by (simp_all add: truthy_def)
  have b: "api_error_body = JObj [(''error'', JStr ''System CCF not found'')]"
    by (simp add: api_error_body_def)
  have m: "msg connect_timeout = ''timed out''"
    by (simp add: connect_timeout_def)
  note r = aicockpit_results
  from r [where env = env_backend_down and sid = None and objid = None
            and sysType = "''ABAPSystem''" and sections = None and base_url = None] t
  have w0: "aicockpit_get_system_details env_backend_down None None ''ABAPSystem'' None None
       = ([], Inr (JObj [(''error'', JStr ''Either 'sid' or 'objid' parameter is required''),
                         (''step'', JStr ''validation'')]))"
    by blast
  from r [where env = env_api_error and sid = "Some ''CCF''" and objid = None
            and sysType = "''ABAPSystem''" and sections = None and base_url = None
            and body = api_error_body and kvs = "[(''error'', JStr ''System CCF not found'')]"]
    t f1 b
  have w1: "aicockpit_get_system_details env_api_error (Some ''CCF'') None ''ABAPSystem'' None None
       = ([system_details_request (Some ''CCF'') None ''ABAPSystem'' None None], Inr api_error_body)"
    and w1s: "aicockpit_get_sections env_api_error None = ([sections_request None], Inr api_error_body)"
    by simp_all
  from r [where env = env_backend_down and sid = "Some ''CCF''" and objid = None
            and sysType = "''ABAPSystem''" and sections = None and base_url = None
            and exc = connect_timeout and sexc = connect_timeout]
    t f2 e1 m
  have w2: "aicockpit_get_system_details env_backend_down (Some ''CCF'') None ''ABAPSystem'' None None
       = ([system_details_request (Some ''CCF'') None ''ABAPSystem'' None None],
          Inr (JObj [(''error'', JStr ''Error in aicockpit_get_system_details: timed out''),
                     (''step'', JStr ''fetch_system_data'')]))"
    and w2s: "aicockpit_get_sections env_backend_down None
       = ([sections_request None],
          Inr (JObj [(''error'', JStr ''Error in aicockpit_get_sections: timed out''),
                     (''step'', JStr ''fetch_sections'')]))"
    by simp_all
  from r [where env = env_cancelled and sid = "Some ''CCF''" and objid = None
            and sysType = "''ABAPSystem''" and sections = None and base_url = None
            and exc = cancelled and sexc = cancelled]
    t f3 e2
  have w3: "aicockpit_get_system_details env_cancelled (Some ''CCF'') None ''ABAPSystem'' None None
       = ([system_details_request (Some ''CCF'') None ''ABAPSystem'' None None], Inl cancelled)"
    and w3s: "aicockpit_get_sections env_cancelled None = ([sections_request None], Inl cancelled)"
    by simp_all
  from r [where env = env_two_calls and base_url = None and sbody = "JArr []"] f4
  have w4s: "aicockpit_get_sections env_two_calls None
       = ([sections_request None],
          Inr (JObj [(''error'', JStr (''Error in aicockpit_get_sections: '' @ sq ''list''
                                       @ '' object has no attribute '' @ sq ''get'')),
                     (''step'', JStr ''fetch_sections'')]))"
    by simp
  show ?thesis
    using t f1 f2 f3 f4 e1 e2 w0 w1 w1s w2 w2s w3 w3s w4s by simp
qed

text \<open>
  A backend that answers 200 with the body \<^verbatim>\<open>{"error": "System CCF not found"}\<close>: both
  lookups return that body, which has no \<^verbatim>\<open>step\<close> key. A call cancelled at the \<^verbatim>\<open>await\<close>:
  the \<^verbatim>\<open>CancelledError\<close> passes \<^verbatim>\<open>except Exception\<close> and leaves both lookups.
\<close>

theorem error_body_and_cancellation:
  "aicockpit_get_system_details env_api_error (Some ''CCF'') None ''ABAPSystem'' None None
     = ([system_details_request (Some ''CCF'') None ''ABAPSystem'' None None], Inr api_error_body)
   \<and> aicockpit_get_sections env_api_error None = ([sections_request None], Inr api_error_body)
   \<and> obj_get api_error_body ''error'' = Some (JStr ''System CCF not found'')
   \<and> obj_get api_error_body ''step'' = None
   \<and> aicockpit_get_system_details env_cancelled (Some ''CCF'') None ''ABAPSystem'' None None
     = ([system_details_request (Some ''CCF'') None ''ABAPSystem'' None None], Inl cancelled)
   \<and> aicockpit_get_sections env_cancelled None = ([sections_request None], Inl cancelled)"
  by (simp add: aicockpit_get_system_details_def system_details_try_def
      aicockpit_get_sections_def sections_try_def result_get_def fetch_json_def truthy_def
      env_api_error_def resp_api_error_def api_error_body_def env_cancelled_def cancelled_def
      obj_get_def Let_def)

end
